theory Spec2Isabelle
  imports Main "HOL-Library.Sublist"
begin

section \<open>Values, exceptions and the outside world\<close>

text \<open>
  Tool arguments and tool results are Python dictionaries holding JSON-like values. A
  dictionary is an association list read with \<open>map_of\<close> (keys are unique in Python).
\<close>

datatype jval =
    JNull
  | JBool bool
  | JInt int
  | JStr string
  | JList "jval list"
  | JObj "(string \<times> jval) list"

type_synonym pydict = "(string \<times> jval) list"

text \<open>Python truthiness, as used by \<open>not yolo\<close> and \<open>if not console\<close>.\<close>

fun truthy :: "jval \<Rightarrow> bool" where
  "truthy JNull = False"
| "truthy (JBool b) = b"
| "truthy (JInt i) = (i \<noteq> 0)"
| "truthy (JStr s) = (s \<noteq> [])"
| "truthy (JList xs) = (xs \<noteq> [])"
| "truthy (JObj kvs) = (kvs \<noteq> [])"

text \<open>
  Exceptions are values. The text of an interpreter-generated message is carried by the
  constructor; \<open>str_exn\<close> is Python's \<open>str(e)\<close> (a \<open>KeyError\<close> prints the repr of its key).
  \<open>FileNotFoundError\<close> is kept apart from the other \<open>OSError\<close>s because \<open>mkdir\<close> tells
  them apart.
\<close>

datatype exn =
    KeyError string
  | TypeError string
  | AttributeError string
  | IndexError string
  | FileNotFoundError string
  | OSError string
  | UnicodeError string
  | JSONDecodeError string

fun str_exn :: "exn \<Rightarrow> string" where
  "str_exn (KeyError k) = [CHR 0x27] @ k @ [CHR 0x27]"
| "str_exn (TypeError m) = m"
| "str_exn (AttributeError m) = m"
| "str_exn (IndexError m) = m"
| "str_exn (FileNotFoundError m) = m"
| "str_exn (OSError m) = m"
| "str_exn (UnicodeError m) = m"
| "str_exn (JSONDecodeError m) = m"

subsection \<open>Paths\<close>

text \<open>
  A \<open>pathlib.Path\<close> is pure: whether it is absolute, and its components, with empty and
  \<open>.\<close> components dropped and \<open>..\<close> kept. Only the operating system gives a path a
  place, by walking its components through the directories that exist (below).
\<close>

fun split_on :: "char \<Rightarrow> string \<Rightarrow> string list" where
  "split_on d [] = [[]]"
| "split_on d (c # cs) =
     (if c = d then [] # split_on d cs
      else (case split_on d cs of [] \<Rightarrow> [[c]] | w # ws \<Rightarrow> (c # w) # ws))"

record purepath =
  absolute :: bool
  parts :: "string list"

definition Path :: "string \<Rightarrow> purepath" where
  "Path s = \<lparr> absolute = (s \<noteq> [] \<and> hd s = CHR ''/''),
              parts = filter (\<lambda>c. c \<noteq> [] \<and> c \<noteq> ''.'') (split_on (CHR ''/'') s) \<rparr>"

text \<open>\<open>a / b\<close> of pathlib: an absolute right operand replaces the left one.\<close>

definition joinpath :: "purepath \<Rightarrow> purepath \<Rightarrow> purepath" where
  "joinpath a b = (if absolute b then b else a\<lparr> parts := parts a @ parts b \<rparr>)"

definition parent :: "purepath \<Rightarrow> purepath" where
  "parent p = p\<lparr> parts := butlast (parts p) \<rparr>"

fun intercalate :: "string \<Rightarrow> string list \<Rightarrow> string" where
  "intercalate d [] = []"
| "intercalate d [x] = x"
| "intercalate d (x # y # ys) = x @ d @ intercalate d (y # ys)"

definition str_path :: "purepath \<Rightarrow> string" where
  "str_path p =
     (if absolute p then ''/'' @ intercalate ''/'' (parts p)
      else if parts p = [] then ''.'' else intercalate ''/'' (parts p))"

type_synonym abspath = "string list"

subsection \<open>File system, prompts and processes\<close>

text \<open>
  A file holds bytes. The file system maps the places that exist, each a list of names
  from the root, to a file or a directory; the root is always a directory. Symbolic
  links are outside the model.
\<close>

datatype node = File string | Dir

type_synonym fsys = "abspath \<rightharpoonup> node"

definition is_dir_abs :: "fsys \<Rightarrow> abspath \<Rightarrow> bool" where
  "is_dir_abs fs a = (a = [] \<or> fs a = Some Dir)"

text \<open>
  The walk of the operating system along the components of a path: every component,
  \<open>..\<close> included, is looked up in the place reached so far, which must be a directory
  that exists (\<open>ENOENT\<close> when it is missing, \<open>ENOTDIR\<close> when it is a file). The place the
  walk ends in need not exist. The parent of the root is the root.
\<close>

fun walk :: "fsys \<Rightarrow> abspath \<Rightarrow> string list \<Rightarrow> exn + abspath" where
  "walk fs acc [] = Inr acc"
| "walk fs acc (c # cs) =
     (if is_dir_abs fs acc then walk fs (if c = ''..'' then butlast acc else acc @ [c]) cs
      else if fs acc = None then Inl (FileNotFoundError ''No such file or directory'')
      else Inl (OSError ''Not a directory''))"

definition resolve :: "fsys \<Rightarrow> abspath \<Rightarrow> purepath \<Rightarrow> exn + abspath" where
  "resolve fs wd p = walk fs (if absolute p then [] else wd) (parts p)"

text \<open>
  The world the agent acts on: the file system, the questions put to the user through
  \<open>Prompt.ask\<close> (oldest first), the shell commands handed to \<open>subprocess.run\<close>, and the
  \<open>run\<close> operations of tools that were invoked, with their keyword arguments.
\<close>

record world =
  files :: fsys
  prompts :: "string list"
  commands :: "jval list"
  runs :: "(string \<times> pydict) list"

datatype proc =
    Completed string string
  | CalledProcessError int string string
  | ProcFailure exn

text \<open>
  What the program cannot decide itself is a parameter: the working directory of the
  process; the user's answer to a prompt (a function of all the questions asked so far,
  the current one last); what a shell command does; the text encoding of the locale
  (\<open>None\<close> where it raises) and the line separator of the platform, which text-mode files
  use; \<open>bytes.decode(errors="replace")\<close>; and whether the console accepts a message,
  given as the format string of the source and the values put into it (the markup of a
  message can make \<open>console.print\<close> raise).
\<close>

record os_env =
  getcwd :: abspath
  user :: "string list \<Rightarrow> string"
  subprocess_run :: "jval \<Rightarrow> fsys \<Rightarrow> proc \<times> fsys"
  encode :: "string \<Rightarrow> string option"
  decode :: "string \<Rightarrow> string option"
  decode_replace :: "string \<Rightarrow> string"
  linesep :: string
  console_print :: "string \<Rightarrow> jval list \<Rightarrow> exn option"

text \<open>\<open>Prompt.ask(question, choices=["y", "n"], default="n")\<close>.\<close>

definition Prompt_ask :: "os_env \<Rightarrow> string \<Rightarrow> world \<Rightarrow> string \<times> world" where
  "Prompt_ask os q w = (let ps = prompts w @ [q] in (user os ps, w\<lparr> prompts := ps \<rparr>))"

text \<open>\<open>Path.exists\<close> and \<open>Path.is_file\<close> answer \<open>False\<close> where the walk fails.\<close>

definition exists :: "os_env \<Rightarrow> world \<Rightarrow> purepath \<Rightarrow> bool" where
  "exists os w p =
     (case resolve (files w) (getcwd os) p of
        Inl _ \<Rightarrow> False
      | Inr a \<Rightarrow> a = [] \<or> files w a \<noteq> None)"

definition is_file :: "os_env \<Rightarrow> world \<Rightarrow> purepath \<Rightarrow> bool" where
  "is_file os w p =
     (case resolve (files w) (getcwd os) p of
        Inl _ \<Rightarrow> False
      | Inr a \<Rightarrow> (case files w a of Some (File _) \<Rightarrow> True | _ \<Rightarrow> False))"

definition is_dir :: "os_env \<Rightarrow> fsys \<Rightarrow> purepath \<Rightarrow> bool" where
  "is_dir os fs p =
     (case resolve fs (getcwd os) p of Inl _ \<Rightarrow> False | Inr a \<Rightarrow> is_dir_abs fs a)"

definition read_bytes :: "os_env \<Rightarrow> world \<Rightarrow> purepath \<Rightarrow> exn + string" where
  "read_bytes os w p =
     (case resolve (files w) (getcwd os) p of
        Inl e \<Rightarrow> Inl e
      | Inr a \<Rightarrow>
          if is_dir_abs (files w) a then Inl (OSError ''Is a directory'')
          else case files w a of
                 Some (File b) \<Rightarrow> Inr b
               | _ \<Rightarrow> Inl (FileNotFoundError ''No such file or directory''))"

text \<open>
  Reading in text mode decodes the bytes and turns every \<open>\r\n\<close> and every remaining
  \<open>\r\<close> into \<open>\n\<close>; writing in text mode turns every \<open>\n\<close> into the platform's line
  separator and encodes.
\<close>

fun universal_newlines :: "string \<Rightarrow> string" where
  "universal_newlines [] = []"
| "universal_newlines [c] = [if c = CHR 0x0D then CHR 0x0A else c]"
| "universal_newlines (c # d # cs) =
     (if c = CHR 0x0D \<and> d = CHR 0x0A then CHR 0x0A # universal_newlines cs
      else if c = CHR 0x0D then CHR 0x0A # universal_newlines (d # cs)
      else c # universal_newlines (d # cs))"

definition platform_newlines :: "os_env \<Rightarrow> string \<Rightarrow> string" where
  "platform_newlines os t = concat (map (\<lambda>c. if c = CHR 0x0A then linesep os else [c]) t)"

definition read_text :: "os_env \<Rightarrow> world \<Rightarrow> purepath \<Rightarrow> exn + string" where
  "read_text os w p =
     (case read_bytes os w p of
        Inl e \<Rightarrow> Inl e
      | Inr b \<Rightarrow>
          (case decode os b of
             None \<Rightarrow> Inl (UnicodeError ''codec can not decode'')
           | Some t \<Rightarrow> Inr (universal_newlines t)))"

text \<open>
  \<open>open(path, "w")\<close>: a directory cannot be opened; otherwise the file is created or
  emptied at once, before anything is written.
\<close>

definition open_w :: "os_env \<Rightarrow> purepath \<Rightarrow> world \<Rightarrow> exn + abspath \<times> world" where
  "open_w os p w =
     (case resolve (files w) (getcwd os) p of
        Inl e \<Rightarrow> Inl e
      | Inr a \<Rightarrow>
          if is_dir_abs (files w) a then Inl (OSError ''Is a directory'')
          else Inr (a, w\<lparr> files := (files w)(a \<mapsto> File []) \<rparr>))"

text \<open>
  \<open>f.write(text)\<close> on the file just opened: the text is translated and encoded, and an
  encoding error leaves the emptied file behind.
\<close>

definition write_opened :: "os_env \<Rightarrow> abspath \<Rightarrow> string \<Rightarrow> world \<Rightarrow> exn option \<times> world" where
  "write_opened os a t w =
     (case encode os (platform_newlines os t) of
        None \<Rightarrow> (Some (UnicodeError ''codec can not encode''), w)
      | Some b \<Rightarrow> (None, w\<lparr> files := (files w)(a \<mapsto> File b) \<rparr>))"

text \<open>\<open>Path.write_text(text)\<close> for a string: open, then write.\<close>

definition write_text :: "os_env \<Rightarrow> purepath \<Rightarrow> string \<Rightarrow> world \<Rightarrow> exn option \<times> world" where
  "write_text os p t w =
     (case open_w os p w of
        Inl e \<Rightarrow> (Some e, w)
      | Inr (a, w1) \<Rightarrow> write_opened os a t w1)"

text \<open>
  \<open>os.mkdir\<close> makes one directory: the walk must succeed and nothing may be at its end.
\<close>

definition os_mkdir :: "os_env \<Rightarrow> purepath \<Rightarrow> fsys \<Rightarrow> exn + fsys" where
  "os_mkdir os p fs =
     (case resolve fs (getcwd os) p of
        Inl e \<Rightarrow> Inl e
      | Inr a \<Rightarrow>
          if a = [] \<or> fs a \<noteq> None then Inl (OSError ''File exists'')
          else Inr (fs(a \<mapsto> Dir)))"

text \<open>
  \<open>Path.mkdir(parents=True, exist_ok=True)\<close>, as pathlib writes it: try \<open>os.mkdir\<close>; on
  \<open>FileNotFoundError\<close> make the parent the same way and try once more, without parents;
  any other \<open>OSError\<close> is swallowed when the path is a directory by then. The recursion
  goes up the pure path, here given by its components in reverse, so a path through
  \<open>..\<close> creates the directory it climbs out of.
\<close>

definition is_FileNotFoundError :: "exn \<Rightarrow> bool" where
  "is_FileNotFoundError e = (case e of FileNotFoundError _ \<Rightarrow> True | _ \<Rightarrow> False)"

definition mkdir_exist_ok :: "os_env \<Rightarrow> purepath \<Rightarrow> fsys \<Rightarrow> exn + fsys" where
  "mkdir_exist_ok os p fs =
     (case os_mkdir os p fs of
        Inr fs' \<Rightarrow> Inr fs'
      | Inl e \<Rightarrow>
          if is_FileNotFoundError e then Inl e
          else if is_dir os fs p then Inr fs else Inl e)"

fun mkdir_up :: "os_env \<Rightarrow> bool \<Rightarrow> string list \<Rightarrow> fsys \<Rightarrow> exn + fsys" where
  "mkdir_up os ab [] fs =
     (case os_mkdir os \<lparr> absolute = ab, parts = [] \<rparr> fs of
        Inr fs' \<Rightarrow> Inr fs'
      | Inl e \<Rightarrow>
          if is_FileNotFoundError e then Inl e
          else if is_dir os fs \<lparr> absolute = ab, parts = [] \<rparr> then Inr fs else Inl e)"
| "mkdir_up os ab (c # rev_parent) fs =
     (let p = \<lparr> absolute = ab, parts = rev (c # rev_parent) \<rparr> in
      case os_mkdir os p fs of
        Inr fs' \<Rightarrow> Inr fs'
      | Inl e \<Rightarrow>
          if is_FileNotFoundError e then
            (case mkdir_up os ab rev_parent fs of
               Inl e' \<Rightarrow> Inl e'
             | Inr fs1 \<Rightarrow> mkdir_exist_ok os p fs1)
          else if is_dir os fs p then Inr fs else Inl e)"

definition mkdir_parents :: "os_env \<Rightarrow> purepath \<Rightarrow> world \<Rightarrow> exn + world" where
  "mkdir_parents os p w =
     (case mkdir_up os (absolute p) (rev (parts p)) (files w) of
        Inl e \<Rightarrow> Inl e
      | Inr fs \<Rightarrow> Inr (w\<lparr> files := fs \<rparr>))"

section \<open>Tools\<close>

text \<open>
  A tool's \<open>run\<close> takes its keyword arguments, may ask the user, may change the world,
  and returns a result dictionary or raises. What a tool prints is not part of the
  state, but a print can raise: on the tool's own console as the environment says, and
  with \<open>AttributeError\<close> on a \<open>console\<close> argument that came from the model.
\<close>

type_synonym tool = "os_env \<Rightarrow> pydict \<Rightarrow> world \<Rightarrow> (exn + pydict) \<times> world"

definition kwarg :: "pydict \<Rightarrow> string \<Rightarrow> jval \<Rightarrow> jval" where
  "kwarg kw k d = (case map_of kw k of None \<Rightarrow> d | Some v \<Rightarrow> v)"

definition missing_kwarg :: "string \<Rightarrow> exn" where
  "missing_kwarg k = TypeError (''run() missing required keyword-only argument: '' @ k)"

definition no_print :: exn where
  "no_print = AttributeError ''object has no attribute print''"

definition err :: "string \<Rightarrow> pydict" where
  "err m = [(''error'', JStr m)]"

definition is_error :: "pydict \<Rightarrow> bool" where
  "is_error r = (map_of r ''error'' \<noteq> None)"

fun str_nat :: "nat \<Rightarrow> string" where
  "str_nat n = (if n < 10 then [char_of (48 + n)] else str_nat (n div 10) @ [char_of (48 + n mod 10)])"

definition str_int :: "int \<Rightarrow> string" where
  "str_int i = (if i < 0 then ''-'' @ str_nat (nat (- i)) else str_nat (nat i))"

subsection \<open>shell\<close>

text \<open>
  \<open>subprocess.run(command, shell=True, check=True, capture_output=True, text=True)\<close>
  inside its \<open>try\<close>: a command that is not a string fails or runs as the library decides.
\<close>

definition shell_exec :: "os_env \<Rightarrow> jval \<Rightarrow> world \<Rightarrow> (exn + pydict) \<times> world" where
  "shell_exec os command w =
     (let (p, fs) = subprocess_run os command (files w);
          w' = w\<lparr> files := fs, commands := commands w @ [command] \<rparr>
      in case p of
           Completed out e \<Rightarrow> (Inr [(''stdout'', JStr out), (''stderr'', JStr e)], w')
         | CalledProcessError rc out e \<Rightarrow>
             (Inr [(''error'', JStr (''Command failed with exit code '' @ str_int rc)),
                   (''stdout'', JStr out), (''stderr'', JStr e)], w')
         | ProcFailure x \<Rightarrow> (Inr (err (str_exn x)), w'))"

definition ShellTool_run :: tool where
  "ShellTool_run os kw w =
     (case map_of kw ''command'' of
        None \<Rightarrow> (Inl (missing_kwarg ''command''), w)
      | Some command \<Rightarrow>
          if \<not> truthy (kwarg kw ''yolo'' (JBool False)) then
            if truthy (kwarg kw ''console'' JNull) then (Inl no_print, w)
            else
              (case console_print os ''Shell command: [bold yellow]{command}[/bold yellow]''
                      [command] of
                 Some e \<Rightarrow> (Inl e, w)
               | None \<Rightarrow>
                   (let (ans, w1) = Prompt_ask os ''Approve this command?'' w in
                    if ans \<noteq> ''y'' then (Inr (err ''User rejected the shell command.''), w1)
                    else shell_exec os command w1))
          else shell_exec os command w)"

subsection \<open>write\_file\<close>

text \<open>
  The body of the \<open>try\<close>: make the parent directories, open the file (which empties
  it), write. Every exception becomes an error result; what was done before it stays.
\<close>

definition write_contents :: "os_env \<Rightarrow> purepath \<Rightarrow> jval \<Rightarrow> world \<Rightarrow> (exn + pydict) \<times> world" where
  "write_contents os file_path contents w =
     (case mkdir_parents os (parent file_path) w of
        Inl e \<Rightarrow> (Inr (err (str_exn e)), w)
      | Inr w1 \<Rightarrow>
          (case open_w os file_path w1 of
             Inl e \<Rightarrow> (Inr (err (str_exn e)), w1)
           | Inr (a, w2) \<Rightarrow>
               (case contents of
                  JStr c \<Rightarrow>
                    (case write_opened os a c w2 of
                       (Some e, w3) \<Rightarrow> (Inr (err (str_exn e)), w3)
                     | (None, w3) \<Rightarrow>
                         (Inr [(''success'', JBool True), (''path'', JStr (str_path file_path))], w3))
                | _ \<Rightarrow> (Inr (err (str_exn (TypeError ''write() argument must be str''))), w2))))"

definition WriteFileTool_run :: tool where
  "WriteFileTool_run os kw w =
     (case map_of kw ''path'' of
        None \<Rightarrow> (Inl (missing_kwarg ''path''), w)
      | Some path \<Rightarrow>
     (case map_of kw ''contents'' of
        None \<Rightarrow> (Inl (missing_kwarg ''contents''), w)
      | Some contents \<Rightarrow>
     (case path of
        JStr p \<Rightarrow>
          (let file_path = Path p in
           if exists os w file_path \<and> \<not> truthy (kwarg kw ''yolo'' (JBool False)) then
             if truthy (kwarg kw ''console'' JNull) then (Inl no_print, w)
             else
               (case console_print os ''File '[bold yellow]{path}[/bold yellow]' already exists.''
                       [path] of
                  Some e \<Rightarrow> (Inl e, w)
                | None \<Rightarrow>
                    (let (ans, w1) = Prompt_ask os ''Overwrite it?'' w in
                     if ans \<noteq> ''y'' then (Inr (err ''User chose not to overwrite the file.''), w1)
                     else write_contents os file_path contents w1))
           else write_contents os file_path contents w)
      | _ \<Rightarrow> (Inl (TypeError ''expected str, bytes or os.PathLike object''), w))))"

subsection \<open>edit\<close>

text \<open>\<open>old in s\<close>, \<open>s.count(old)\<close> and \<open>s.replace(old, new, 1)\<close> on Python strings.\<close>

fun contains :: "string \<Rightarrow> string \<Rightarrow> bool" where
  "contains old [] = (old = [])"
| "contains old (c # cs) = (prefix old (c # cs) \<or> contains old cs)"

text \<open>Occurrences are counted without overlap; \<open>k\<close> characters of a match are still to skip.\<close>

fun count_skip :: "nat \<Rightarrow> string \<Rightarrow> string \<Rightarrow> nat" where
  "count_skip k old [] = 0"
| "count_skip 0 old (c # cs) =
     (if prefix old (c # cs) then Suc (count_skip (length old - 1) old cs)
      else count_skip 0 old cs)"
| "count_skip (Suc k) old (c # cs) = count_skip k old cs"

definition count_occurrences :: "string \<Rightarrow> string \<Rightarrow> nat" where
  "count_occurrences old s = (if old = [] then Suc (length s) else count_skip 0 old s)"

fun replace_first :: "string \<Rightarrow> string \<Rightarrow> string \<Rightarrow> string" where
  "replace_first old new [] = (if old = [] then new else [])"
| "replace_first old new (c # cs) =
     (if prefix old (c # cs) then new @ drop (length old) (c # cs)
      else c # replace_first old new cs)"

text \<open>The two messages printed before the tool's own prompt; either can raise.\<close>

definition edit_announce :: "os_env \<Rightarrow> nat \<Rightarrow> string \<Rightarrow> jval \<Rightarrow> string \<Rightarrow> exn option" where
  "edit_announce os occurrences search_text replace_text path =
     (case console_print os ''Found {occurrences} occurrence(s) of the search text.''
             [JInt (int occurrences)] of
        Some e \<Rightarrow> Some e
      | None \<Rightarrow>
          console_print os
            ''About to replace '[bold red]{search_text}[/bold red]' with '[bold green]{replace_text}[/bold green]' in {path}.''
            [JStr search_text, replace_text, JStr path])"

definition edit_apply :: "os_env \<Rightarrow> purepath \<Rightarrow> string \<Rightarrow> string \<Rightarrow> jval \<Rightarrow> world
    \<Rightarrow> (exn + pydict) \<times> world" where
  "edit_apply os file_path original_content search_text replace_text w =
     (case replace_text of
        JStr r \<Rightarrow>
          (case write_text os file_path (replace_first search_text r original_content) w of
             (Some e, w') \<Rightarrow> (Inr (err (str_exn e)), w')
           | (None, w') \<Rightarrow> (Inr [(''success'', JBool True), (''path'', JStr (str_path file_path))], w'))
      | _ \<Rightarrow> (Inr (err (str_exn (TypeError ''replace() argument 2 must be str''))), w))"

definition EditTool_run :: tool where
  "EditTool_run os kw w =
     (case map_of kw ''path'' of
        None \<Rightarrow> (Inl (missing_kwarg ''path''), w)
      | Some path \<Rightarrow>
     (case map_of kw ''search_text'' of
        None \<Rightarrow> (Inl (missing_kwarg ''search_text''), w)
      | Some search_text \<Rightarrow>
     (case map_of kw ''replace_text'' of
        None \<Rightarrow> (Inl (missing_kwarg ''replace_text''), w)
      | Some replace_text \<Rightarrow>
     (case path of
        JStr p \<Rightarrow>
          (let file_path = Path p in
           if \<not> is_file os w file_path then (Inr (err (''File not found at '' @ p)), w)
           else
             (case read_text os w file_path of
                Inl e \<Rightarrow> (Inr (err (str_exn e)), w)
              | Inr original_content \<Rightarrow>
                  (case search_text of
                     JStr s \<Rightarrow>
                       if \<not> contains s original_content then
                         (Inr (err ''Search text not found in file. Use `read_file` to see the exact content.''), w)
                       else if \<not> truthy (kwarg kw ''yolo'' (JBool False)) then
                         if truthy (kwarg kw ''console'' JNull) then (Inr (err (str_exn no_print)), w)
                         else
                           (case edit_announce os (count_occurrences s original_content) s
                                   replace_text p of
                              Some e \<Rightarrow> (Inr (err (str_exn e)), w)
                            | None \<Rightarrow>
                                (let (ans, w1) = Prompt_ask os ''Approve this change?'' w in
                                 if ans \<noteq> ''y'' then (Inr (err ''User rejected the edit.''), w1)
                                 else edit_apply os file_path original_content s replace_text w1))
                       else edit_apply os file_path original_content s replace_text w
                   | _ \<Rightarrow> (Inr (err (str_exn (TypeError ''in <string> requires string as left operand''))), w))))
      | _ \<Rightarrow> (Inl (TypeError ''expected str, bytes or os.PathLike object''), w)))))"

subsection \<open>read\_file\<close>

text \<open>
  The module constants: \<open>WORKSPACE_ROOT = Path(os.getcwd()).parent\<close> in \<open>read_file.py\<close>,
  \<open>WORKSPACE_ROOT = Path(os.getcwd())\<close> in \<open>write_file.py\<close> (where it is never used).
\<close>

definition getcwd_path :: "os_env \<Rightarrow> purepath" where
  "getcwd_path os = \<lparr> absolute = True, parts = getcwd os \<rparr>"

definition read_file_WORKSPACE_ROOT :: "os_env \<Rightarrow> purepath" where
  "read_file_WORKSPACE_ROOT os = parent (getcwd_path os)"

definition write_file_WORKSPACE_ROOT :: "os_env \<Rightarrow> purepath" where
  "write_file_WORKSPACE_ROOT os = getcwd_path os"

text \<open>\<open>data[:n]\<close>; a negative bound counts from the end.\<close>

definition slice_to :: "string \<Rightarrow> int \<Rightarrow> string" where
  "slice_to d n = (if 0 \<le> n then take (nat n) d else take (length d - nat (- n)) d)"

text \<open>
  The bytes are read, cut to \<open>max_bytes\<close>, and only then decoded, with replacement of
  what does not decode.
\<close>

definition ReadFileTool_run :: tool where
  "ReadFileTool_run os kw w =
     (case map_of kw ''path'' of
        None \<Rightarrow> (Inl (missing_kwarg ''path''), w)
      | Some path \<Rightarrow>
     (case path of
        JStr p \<Rightarrow>
          (let file_path = joinpath (read_file_WORKSPACE_ROOT os) (Path p) in
           if \<not> exists os w file_path then
             (Inr (err (''File '' @ [CHR 0x27] @ p @ [CHR 0x27] @ '' does not exist at ''
                        @ [CHR 0x27] @ str_path file_path @ [CHR 0x27] @ ''.'')), w)
           else
             (case read_bytes os w file_path of
                Inl e \<Rightarrow> (Inr (err (str_exn e)), w)
              | Inr data \<Rightarrow>
                  (case kwarg kw ''max_bytes'' (JInt 10000) of
                     JNull \<Rightarrow> (Inr [(''contents'', JStr (decode_replace os data))], w)
                   | JInt n \<Rightarrow> (Inr [(''contents'', JStr (decode_replace os (slice_to data n)))], w)
                   | JBool b \<Rightarrow>
                       (Inr [(''contents'', JStr (decode_replace os (slice_to data (if b then 1 else 0))))], w)
                   | _ \<Rightarrow> (Inr (err (str_exn (TypeError ''slice indices must be integers''))), w))))
      | _ \<Rightarrow> (Inl (TypeError ''unsupported operand type(s) for /''), w)))"

subsection \<open>ToolRegistry\<close>

text \<open>
  \<open>_registry\<close> maps a name to a tool class; \<open>get\<close> is a plain dictionary lookup and
  raises \<open>KeyError\<close> for an unknown name. \<open>run(cls, name, **kwargs)\<close> receives the
  model's arguments as keywords, so an argument called \<open>name\<close> or \<open>cls\<close> collides with its
  own parameters, and one called \<open>self\<close> with the tool's; Python raises \<open>TypeError\<close> at
  the call.
\<close>

type_synonym registry = "string \<rightharpoonup> tool"

definition ToolRegistry_get :: "registry \<Rightarrow> string \<Rightarrow> exn + tool" where
  "ToolRegistry_get reg name = (case reg name of None \<Rightarrow> Inl (KeyError name) | Some t \<Rightarrow> Inr t)"

definition multiple_values :: "string \<Rightarrow> exn" where
  "multiple_values k = TypeError (''run() got multiple values for argument '' @ k)"

definition ToolRegistry_run :: "registry \<Rightarrow> os_env \<Rightarrow> string \<Rightarrow> pydict \<Rightarrow> world
    \<Rightarrow> (exn + pydict) \<times> world" where
  "ToolRegistry_run reg os name kw w =
     (if map_of kw ''cls'' \<noteq> None then (Inl (multiple_values ''cls''), w)
      else if map_of kw ''name'' \<noteq> None then (Inl (multiple_values ''name''), w)
      else case ToolRegistry_get reg name of
             Inl e \<Rightarrow> (Inl e, w)
           | Inr tool_cls \<Rightarrow>
               if map_of kw ''self'' \<noteq> None then (Inl (multiple_values ''self''), w)
               else tool_cls os kw (w\<lparr> runs := runs w @ [(name, kw)] \<rparr>))"

text \<open>
  The registry holding the four tools above. The command line registers five more (for
  listing, searching and the web); no property below depends on them, and the properties
  of the loop hold for any registry.
\<close>

definition tools_registry :: registry where
  "tools_registry = map_of
     [(''read_file'', ReadFileTool_run), (''write_file'', WriteFileTool_run),
      (''shell'', ShellTool_run), (''edit'', EditTool_run)]"

section \<open>The agent\<close>

subsection \<open>Replies, history and state\<close>

text \<open>
  A blocking reply is a dictionary; the loop looks at its keys \<open>function_call\<close> and
  \<open>text\<close> only (the value of \<open>text\<close> may be \<open>None\<close>). \<open>function_call.get("args", {})\<close>
  reads an optional key.
\<close>

record fcall =
  fc_name :: string
  fc_args :: "jval option"

record reply =
  function_call :: "fcall option"
  text_part :: "string option option"
  other_keys :: pydict

text \<open>Streaming chunks: \<open>chunk.choices[0].delta\<close> with its optional parts.\<close>

record fn_chunk =
  fn_name :: "string option"
  fn_arguments :: "string option"

record tc_chunk =
  tc_index :: nat
  tc_id :: "string option"
  tc_function :: "fn_chunk option"

record delta =
  content :: "string option"
  tool_calls :: "tc_chunk list option"

type_synonym chunk = "delta list"

text \<open>An entry of the \<open>tool_calls\<close> list built while a stream is read.\<close>

record tool_call =
  call_id :: "string option"
  call_name :: "string option"
  call_arguments :: string

text \<open>
  \<open>_history\<close> is one list for both modes; each mode appends dictionaries of its own shape.
\<close>

datatype turn =
    UserParts string
  | ModelParts reply
  | FunctionParts string pydict
  | ModelText "string option"
  | UserContent string
  | AssistantCalls string "tool_call list"
  | ToolMessage "string option" "string option" string
  | AssistantContent string

text \<open>What the generator of the streaming mode yields: a string or a dictionary.\<close>

datatype yielded = YStr string | YCall "string option" jval

text \<open>
  The agent object: the backend (its \<open>generate\<close> with the tool schemas and the system
  prompt fixed, and \<open>_prepare_messages\<close> followed by \<open>generate_stream\<close>), the \<open>yolo\<close>
  flag, the registry, the operating system, and the library functions \<open>json.loads\<close>
  (\<open>None\<close> for \<open>JSONDecodeError\<close>), \<open>json.dumps\<close> and the \<open>str\<close> of a reply dictionary.
\<close>

record agent =
  llm_generate :: "turn list \<Rightarrow> exn + reply"
  llm_generate_stream :: "turn list \<Rightarrow> exn + chunk list"
  yolo :: bool
  registry :: registry
  os :: os_env
  json_loads :: "string \<Rightarrow> jval option"
  json_dumps :: "pydict \<Rightarrow> string"
  str_reply :: "reply \<Rightarrow> string"

record state =
  history :: "turn list"
  world :: world
  llm_calls :: nat
  yields :: "yielded list"

definition DANGEROUS_TOOLS :: "string list" where
  "DANGEROUS_TOOLS = [''shell'', ''write_file'', ''edit'']"

definition rejected :: "string \<Rightarrow> pydict" where
  "rejected tool_name =
     err (''Tool call for '' @ [CHR 0x27] @ tool_name @ [CHR 0x27] @ '' was rejected by the user.'')"

subsection \<open>Blocking mode\<close>

datatype outcome = Next | Done "string option" | Raised exn

definition turn_limit_error :: string where
  "turn_limit_error = ''Error: Agent exceeded maximum turns.''"

definition invalid_response :: "agent \<Rightarrow> reply \<Rightarrow> string" where
  "invalid_response ag r = ''Error: Invalid response from LLM: '' @ str_reply ag r"

text \<open>
  The tool branch of one iteration. The diff preview of \<open>edit\<close> only reads the file and
  prints, inside a \<open>try\<close> that catches everything, so it leaves the state as it is.
  What the agent itself prints on its console is not part of the state and is taken
  to succeed; only the prints made inside a tool are modelled as able to raise.
\<close>

definition run_and_record :: "agent \<Rightarrow> string \<Rightarrow> jval \<Rightarrow> state \<Rightarrow> outcome \<times> state" where
  "run_and_record ag tool_name tool_args s =
     (case tool_args of
        JObj kw \<Rightarrow>
          (case ToolRegistry_run (registry ag) (os ag) tool_name kw (world s) of
             (Inl e, w) \<Rightarrow> (Raised e, s\<lparr> world := w \<rparr>)
           | (Inr tool_result, w) \<Rightarrow>
               (Next, s\<lparr> world := w, history := history s @ [FunctionParts tool_name tool_result] \<rparr>))
      | _ \<Rightarrow> (Raised (TypeError ''argument after ** must be a mapping''), s))"

definition handle_function_call :: "agent \<Rightarrow> reply \<Rightarrow> fcall \<Rightarrow> state \<Rightarrow> outcome \<times> state" where
  "handle_function_call ag llm_response fc s0 =
     (let s = s0\<lparr> history := history s0 @ [ModelParts llm_response] \<rparr>;
          tool_name = fc_name fc;
          tool_args = (case fc_args fc of None \<Rightarrow> JObj [] | Some a \<Rightarrow> a)
      in
      if tool_name \<in> set DANGEROUS_TOOLS \<and> \<not> yolo ag then
        (let (ans, w) = Prompt_ask (os ag) ''Approve this tool call?'' (world s) in
         if ans \<noteq> ''y'' then
           (Next, s\<lparr> world := w, history := history s @ [FunctionParts tool_name (rejected tool_name)] \<rparr>)
         else run_and_record ag tool_name tool_args (s\<lparr> world := w \<rparr>))
      else run_and_record ag tool_name tool_args s)"

definition execute_turn :: "agent \<Rightarrow> state \<Rightarrow> outcome \<times> state" where
  "execute_turn ag s0 =
     (let s = s0\<lparr> llm_calls := Suc (llm_calls s0) \<rparr> in
      case llm_generate ag (history s0) of
        Inl e \<Rightarrow> (Raised e, s)
      | Inr llm_response \<Rightarrow>
          (case function_call llm_response of
             Some fc \<Rightarrow> handle_function_call ag llm_response fc s
           | None \<Rightarrow>
               (case text_part llm_response of
                  Some final_response \<Rightarrow>
                    (Done final_response, s\<lparr> history := history s @ [ModelText final_response] \<rparr>)
                | None \<Rightarrow> (Done (Some (invalid_response ag llm_response)), s))))"

fun execute_loop :: "agent \<Rightarrow> nat \<Rightarrow> state \<Rightarrow> (exn + string option) \<times> state" where
  "execute_loop ag 0 s = (Inr (Some turn_limit_error), s)"
| "execute_loop ag (Suc n) s =
     (case execute_turn ag s of
        (Next, s') \<Rightarrow> execute_loop ag n s'
      | (Done r, s') \<Rightarrow> (Inr r, s')
      | (Raised e, s') \<Rightarrow> (Inl e, s'))"

text \<open>\<open>range(max_turns)\<close> is empty for a negative bound.\<close>

definition execute :: "agent \<Rightarrow> string \<Rightarrow> int \<Rightarrow> state \<Rightarrow> (exn + string option) \<times> state" where
  "execute ag prompt max_turns s =
     execute_loop ag (nat max_turns) (s\<lparr> history := history s @ [UserParts prompt] \<rparr>)"

definition execute_default :: "agent \<Rightarrow> string \<Rightarrow> state \<Rightarrow> (exn + string option) \<times> state" where
  "execute_default ag prompt s = execute ag prompt 25 s"

subsection \<open>Streaming mode\<close>

definition str_opt :: "string option \<Rightarrow> string" where
  "str_opt n = (case n of None \<Rightarrow> ''None'' | Some x \<Rightarrow> x)"

text \<open>
  One fragment of a tool call: a new entry is appended when the list is not longer than
  the fragment's index, then the fragment's argument text, if any, is added to the entry
  at that index. Reading \<open>.name\<close> of a missing \<open>function\<close> and indexing past the end raise.
  A stream index is a natural number.
\<close>

definition add_fragment :: "tc_chunk \<Rightarrow> tool_call list \<Rightarrow> exn + tool_call list" where
  "add_fragment c tcs =
     (case (if length tcs \<le> tc_index c then
              (case tc_function c of
                 None \<Rightarrow> Inl (AttributeError ''NoneType object has no attribute name'')
               | Some f \<Rightarrow>
                   Inr (tcs @ [\<lparr> call_id = tc_id c, call_name = fn_name f, call_arguments = [] \<rparr>]))
            else Inr tcs) of
        Inl e \<Rightarrow> Inl e
      | Inr tcs1 \<Rightarrow>
          (case tc_function c of
             None \<Rightarrow> Inr tcs1
           | Some f \<Rightarrow>
               (case fn_arguments f of
                  None \<Rightarrow> Inr tcs1
                | Some a \<Rightarrow>
                    if a = [] then Inr tcs1
                    else if tc_index c < length tcs1 then
                      Inr (tcs1[tc_index c :=
                             (tcs1 ! tc_index c)\<lparr> call_arguments :=
                                call_arguments (tcs1 ! tc_index c) @ a \<rparr>])
                    else Inl (IndexError ''list index out of range''))))"

fun add_fragments :: "tc_chunk list \<Rightarrow> tool_call list \<Rightarrow> exn + tool_call list" where
  "add_fragments [] tcs = Inr tcs"
| "add_fragments (c # cs) tcs =
     (case add_fragment c tcs of Inl e \<Rightarrow> Inl e | Inr tcs1 \<Rightarrow> add_fragments cs tcs1)"

text \<open>
  The accumulator of one streamed reply: the text so far, the tool calls so far, and
  what has been yielded. Text is yielded as soon as its chunk is read.
\<close>

record accumulator =
  full_response_content :: string
  acc_tool_calls :: "tool_call list"
  emitted :: "yielded list"

definition process_chunk :: "chunk \<Rightarrow> accumulator \<Rightarrow> exn option \<times> accumulator" where
  "process_chunk ch a =
     (case ch of
        [] \<Rightarrow> (Some (IndexError ''list index out of range''), a)
      | d # _ \<Rightarrow>
          (let a1 = (case content d of
                       None \<Rightarrow> a
                     | Some t \<Rightarrow>
                         if t = [] then a
                         else a\<lparr> emitted := emitted a @ [YStr t],
                                full_response_content := full_response_content a @ t \<rparr>)
           in case tool_calls d of
                None \<Rightarrow> (None, a1)
              | Some frags \<Rightarrow>
                  (case add_fragments frags (acc_tool_calls a1) of
                     Inl e \<Rightarrow> (Some e, a1)
                   | Inr tcs \<Rightarrow> (None, a1\<lparr> acc_tool_calls := tcs \<rparr>))))"

text \<open>An exception in the middle of a stream leaves what was yielded before it.\<close>

fun process_stream :: "chunk list \<Rightarrow> accumulator \<Rightarrow> exn option \<times> accumulator" where
  "process_stream [] a = (None, a)"
| "process_stream (ch # chs) a =
     (case process_chunk ch a of
        (Some e, a1) \<Rightarrow> (Some e, a1)
      | (None, a1) \<Rightarrow> process_stream chs a1)"

text \<open>\<open>_execute_tool\<close>: the approval gate, then the registry inside a \<open>try\<close>.\<close>

definition run_caught :: "agent \<Rightarrow> string option \<Rightarrow> jval \<Rightarrow> world \<Rightarrow> pydict \<times> world" where
  "run_caught ag tool_name tool_args w =
     (case tool_args of
        JObj kw \<Rightarrow>
          (case tool_name of
             None \<Rightarrow> (err (''Error executing tool None: None''), w)
           | Some n \<Rightarrow>
               (case ToolRegistry_run (registry ag) (os ag) n kw w of
                  (Inl e, w') \<Rightarrow> (err (''Error executing tool '' @ n @ '': '' @ str_exn e), w')
                | (Inr r, w') \<Rightarrow> (r, w')))
      | _ \<Rightarrow>
          (err (''Error executing tool '' @ str_opt tool_name @ '': ''
                @ str_exn (TypeError ''argument after ** must be a mapping'')), w))"

definition execute_tool :: "agent \<Rightarrow> string option \<Rightarrow> jval \<Rightarrow> world \<Rightarrow> pydict \<times> world" where
  "execute_tool ag tool_name tool_args w =
     (if (case tool_name of None \<Rightarrow> False | Some n \<Rightarrow> n \<in> set DANGEROUS_TOOLS) \<and> \<not> yolo ag then
        (let (ans, w1) = Prompt_ask (os ag) ''Approve this tool call?'' w in
         if ans \<noteq> ''y'' then (rejected (str_opt tool_name), w1)
         else run_caught ag tool_name tool_args w1)
      else run_caught ag tool_name tool_args w)"

definition invalid_json :: "tool_call \<Rightarrow> string" where
  "invalid_json tc = ''Error: Invalid JSON arguments for tool '' @ str_opt (call_name tc)
                     @ '': '' @ call_arguments tc"

text \<open>
  The loop over the assembled tool calls: what it adds to \<open>tool_outputs\<close>, what it
  yields, and the world after it.
\<close>

fun dispatch :: "agent \<Rightarrow> tool_call list \<Rightarrow> world \<Rightarrow> turn list \<times> yielded list \<times> world" where
  "dispatch ag [] w = ([], [], w)"
| "dispatch ag (tc # tcs) w =
     (case json_loads ag (call_arguments tc) of
        None \<Rightarrow>
          (let (outs, ys, w') = dispatch ag tcs w in
           (ToolMessage (call_id tc) (call_name tc) (invalid_json tc) # outs,
            YStr (invalid_json tc) # ys, w'))
      | Some tool_args \<Rightarrow>
          (let (tool_output_content, w1) = execute_tool ag (call_name tc) tool_args w;
               (outs, ys, w') = dispatch ag tcs w1 in
           (ToolMessage (call_id tc) (call_name tc) (json_dumps ag tool_output_content) # outs,
            YCall (call_name tc) tool_args # ys, w')))"

definition stream_turn :: "agent \<Rightarrow> state \<Rightarrow> outcome \<times> state" where
  "stream_turn ag s0 =
     (let s = s0\<lparr> llm_calls := Suc (llm_calls s0) \<rparr> in
      case llm_generate_stream ag (history s0) of
        Inl e \<Rightarrow> (Raised e, s)
      | Inr stream \<Rightarrow>
          (case process_stream stream
                  \<lparr> full_response_content = [], acc_tool_calls = [], emitted = [] \<rparr> of
             (Some e, a) \<Rightarrow> (Raised e, s\<lparr> yields := yields s @ emitted a \<rparr>)
           | (None, a) \<Rightarrow>
               if acc_tool_calls a \<noteq> [] then
                 (let (tool_outputs, ys, w) = dispatch ag (acc_tool_calls a) (world s) in
                  (Next, s\<lparr> history := history s
                                @ [AssistantCalls (full_response_content a) (acc_tool_calls a)]
                                @ tool_outputs,
                            yields := yields s @ emitted a @ ys,
                            world := w \<rparr>))
               else
                 (Done None, s\<lparr> history := history s @ [AssistantContent (full_response_content a)],
                               yields := yields s @ emitted a \<rparr>)))"

text \<open>
  The generator, run to its end by the caller: it finishes normally (\<open>Inr ()\<close>) or an
  exception leaves it.
\<close>

fun execute_stream_loop :: "agent \<Rightarrow> nat \<Rightarrow> state \<Rightarrow> (exn + unit) \<times> state" where
  "execute_stream_loop ag 0 s = (Inr (), s)"
| "execute_stream_loop ag (Suc n) s =
     (case stream_turn ag s of
        (Next, s') \<Rightarrow> execute_stream_loop ag n s'
      | (Done r, s') \<Rightarrow> (Inr (), s')
      | (Raised e, s') \<Rightarrow> (Inl e, s'))"

definition execute_stream :: "agent \<Rightarrow> string \<Rightarrow> int \<Rightarrow> state \<Rightarrow> (exn + unit) \<times> state" where
  "execute_stream ag prompt max_turns s =
     execute_stream_loop ag (nat max_turns) (s\<lparr> history := history s @ [UserContent prompt] \<rparr>)"

definition execute_stream_default :: "agent \<Rightarrow> string \<Rightarrow> state \<Rightarrow> (exn + unit) \<times> state" where
  "execute_stream_default ag prompt s = execute_stream ag prompt 10 s"

section \<open>The Groq endpoint\<close>

text \<open>
  \<open>GroqLLMEndpoint.generate\<close>. The request to the service is a parameter \<open>api\<close>: it
  returns \<open>choices[0].message\<close> or raises. \<open>_prepare_messages\<close> runs before the \<open>try\<close>;
  it reads \<open>turn["content"]\<close> of every user turn and skips the roles it does not know.
  Its final filter drops messages with neither content nor tool calls; the turns the
  agent stores always have content, so it keeps them all.
\<close>

record groq_tool_call =
  function_name :: string
  function_arguments :: string

record groq_message =
  message_content :: "string option"
  message_tool_calls :: "groq_tool_call list option"

datatype message =
    SystemMessage string
  | UserMessage string
  | AssistantMessage "string option" "tool_call list option"
  | ToolResultMessage "string option" string

fun prepare_turns :: "turn list \<Rightarrow> exn + message list" where
  "prepare_turns [] = Inr []"
| "prepare_turns (t # ts) =
     (case (case t of
              UserContent c \<Rightarrow> Inr [UserMessage c]
            | UserParts _ \<Rightarrow> Inl (KeyError ''content'')
            | AssistantCalls c tcs \<Rightarrow> Inr [AssistantMessage (Some c) (Some tcs)]
            | AssistantContent c \<Rightarrow> Inr [AssistantMessage (Some c) None]
            | ToolMessage i n c \<Rightarrow> Inr [ToolResultMessage i c]
            | _ \<Rightarrow> Inr []) of
        Inl e \<Rightarrow> Inl e
      | Inr ms \<Rightarrow> (case prepare_turns ts of Inl e \<Rightarrow> Inl e | Inr rest \<Rightarrow> Inr (ms @ rest)))"

definition prepare_messages :: "turn list \<Rightarrow> string option \<Rightarrow> exn + message list" where
  "prepare_messages history' system_prompt =
     (case prepare_turns history' of
        Inl e \<Rightarrow> Inl e
      | Inr ms \<Rightarrow>
          Inr ((case system_prompt of
                  None \<Rightarrow> []
                | Some p \<Rightarrow> if p = [] then [] else [SystemMessage p]) @ ms))"

definition error_reply :: "exn \<Rightarrow> reply" where
  "error_reply e = \<lparr> function_call = None, text_part = None,
                     other_keys = [(''error'', JStr (str_exn e))] \<rparr>"

definition groq_generate :: "(message list \<Rightarrow> exn + groq_message) \<Rightarrow> (string \<Rightarrow> jval option)
    \<Rightarrow> string option \<Rightarrow> turn list \<Rightarrow> exn + reply" where
  "groq_generate api loads system_prompt history' =
     (case prepare_messages history' system_prompt of
        Inl e \<Rightarrow> Inl e
      | Inr messages \<Rightarrow>
          (case api messages of
             Inl e \<Rightarrow> Inr (error_reply e)
           | Inr response_message \<Rightarrow>
               (case message_tool_calls response_message of
                  Some (tool_call # _) \<Rightarrow>
                    (case loads (function_arguments tool_call) of
                       None \<Rightarrow> Inr (error_reply (JSONDecodeError ''Expecting value''))
                     | Some a \<Rightarrow>
                         Inr \<lparr> function_call = Some \<lparr> fc_name = function_name tool_call,
                                                      fc_args = Some a \<rparr>,
                               text_part = None, other_keys = [] \<rparr>)
                | _ \<Rightarrow> Inr \<lparr> function_call = None,
                             text_part = Some (message_content response_message),
                             other_keys = [] \<rparr>)))"

section \<open>Arrival order of streamed arguments\<close>

text \<open>
  The specification's wording of the merge rule, to compare the accumulator with: the
  argument text that arrived for a call index is the text of the fragments carrying that
  index, chunk after chunk and fragment after fragment, joined in that order.
\<close>

definition fragment_text :: "tc_chunk \<Rightarrow> string" where
  "fragment_text c =
     (case tc_function c of
        None \<Rightarrow> []
      | Some f \<Rightarrow> (case fn_arguments f of None \<Rightarrow> [] | Some a \<Rightarrow> a))"

definition arrived_in :: "nat \<Rightarrow> tc_chunk list \<Rightarrow> string" where
  "arrived_in i frags = concat (map fragment_text (filter (\<lambda>c. tc_index c = i) frags))"

definition arrived_arguments :: "nat \<Rightarrow> chunk list \<Rightarrow> string" where
  "arrived_arguments i chunks =
     concat (map (\<lambda>ch. case ch of
                          [] \<Rightarrow> []
                        | d # _ \<Rightarrow> (case tool_calls d of None \<Rightarrow> [] | Some frags \<Rightarrow> arrived_in i frags))
                 chunks)"

definition chunk_arguments :: "nat \<Rightarrow> chunk \<Rightarrow> string" where
  "chunk_arguments i ch =
     (case ch of
        [] \<Rightarrow> []
      | d # _ \<Rightarrow> (case tool_calls d of None \<Rightarrow> [] | Some frags \<Rightarrow> arrived_in i frags))"

text \<open>The argument text held at an index of the list, empty past its end.\<close>

definition args_from :: "tool_call list \<Rightarrow> nat \<Rightarrow> string" where
  "args_from tcs i = (if i < length tcs then call_arguments (tcs ! i) else [])"

definition empty_accumulator :: accumulator where
  "empty_accumulator = \<lparr> full_response_content = [], acc_tool_calls = [], emitted = [] \<rparr>"

section \<open>Iterating the streaming loop\<close>

text \<open>
  The state after one iteration, and the backends whose every streamed reply is read
  without an exception and assembles at least one tool call.
\<close>

definition stream_step :: "agent \<Rightarrow> state \<Rightarrow> state" where
  "stream_step ag s = snd (stream_turn ag s)"

definition always_calls :: "agent \<Rightarrow> bool" where
  "always_calls ag \<longleftrightarrow>
     (\<forall>h. \<exists>chunks a. llm_generate_stream ag h = Inr chunks
            \<and> process_stream chunks empty_accumulator = (None, a)
            \<and> acc_tool_calls a \<noteq> [])"

section \<open>Notions used in the properties\<close>




section \<open>Sample inputs\<close>

text \<open>
  A small world and a few agents on which the properties below are evaluated: a project
  directory \<open>/home/proj\<close> holding \<open>notes.txt\<close>, a user who answers every prompt with
  \<open>n\<close> (or with \<open>y\<close>), a platform whose line separator is \<open>\n\<close>, whose encoding keeps
  the sample texts as they are and whose console accepts every message, and backends
  that give the same reply whatever the history.
\<close>

definition os_no :: os_env where
  "os_no = \<lparr> getcwd = [''home'', ''proj''], user = (\<lambda>ps. ''n''),
             subprocess_run = (\<lambda>c fs. (Completed [] [], fs)),
             encode = Some, decode = Some, decode_replace = (\<lambda>b. b),
             linesep = [CHR 0x0A], console_print = (\<lambda>m vs. None) \<rparr>"

definition fs0 :: fsys where
  "fs0 = [[''home''] \<mapsto> Dir, [''home'', ''proj''] \<mapsto> Dir,
          [''home'', ''proj'', ''notes.txt''] \<mapsto> File ''alpha beta alpha'']"

definition world0 :: world where
  "world0 = \<lparr> files = fs0, prompts = [], commands = [], runs = [] \<rparr>"

definition state0 :: state where
  "state0 = \<lparr> history = [], world = world0, llm_calls = 0, yields = [] \<rparr>"

definition sample_agent :: "(turn list \<Rightarrow> exn + reply) \<Rightarrow> bool \<Rightarrow> os_env \<Rightarrow> agent" where
  "sample_agent gen y e =
     \<lparr> llm_generate = gen, llm_generate_stream = (\<lambda>h. Inr []), yolo = y,
       registry = tools_registry, os = e, json_loads = (\<lambda>s. None),
       json_dumps = (\<lambda>d. []), str_reply = (\<lambda>r. []) \<rparr>"

definition call_reply :: "string \<Rightarrow> pydict \<Rightarrow> reply" where
  "call_reply n kw = \<lparr> function_call = Some \<lparr> fc_name = n, fc_args = Some (JObj kw) \<rparr>,
                       text_part = None, other_keys = [] \<rparr>"

definition text_reply :: "string \<Rightarrow> reply" where
  "text_reply t = \<lparr> function_call = None, text_part = Some (Some t), other_keys = [] \<rparr>"

definition edit_args :: pydict where
  "edit_args = [(''path'', JStr ''notes.txt''), (''search_text'', JStr ''alpha''),
                (''replace_text'', JStr ''gamma'')]"






text \<open>
  Streaming samples. \<open>sample_loads\<close> and \<open>sample_dumps\<close> stand for \<open>json.loads\<close> and
  \<open>json.dumps\<close> on the few texts used here.
\<close>

definition sample_loads :: "string \<Rightarrow> jval option" where
  \<open>sample_loads s =
     (if s = ''{"a":1}'' then Some (JObj [(''a'', JInt 1)])
      else if s = ''{"path":"out.txt"}'' then Some (JObj [(''path'', JStr ''out.txt'')])
      else None)\<close>

definition sample_dumps :: "pydict \<Rightarrow> string" where
  "sample_dumps d = (case map_of d ''error'' of Some (JStr m) \<Rightarrow> ''error: '' @ m | _ \<Rightarrow> ''ok'')"

definition stream_agent :: "chunk list \<Rightarrow> agent" where
  "stream_agent chunks =
     \<lparr> llm_generate = (\<lambda>h. Inl (OSError ''unused'')), llm_generate_stream = (\<lambda>h. Inr chunks),
       yolo = False, registry = tools_registry, os = os_no, json_loads = sample_loads,
       json_dumps = sample_dumps, str_reply = (\<lambda>r. []) \<rparr>"

definition frag :: "nat \<Rightarrow> string option \<Rightarrow> string option \<Rightarrow> string \<Rightarrow> tc_chunk" where
  "frag i cid n a = \<lparr> tc_index = i, tc_id = cid,
                      tc_function = Some \<lparr> fn_name = n, fn_arguments = Some a \<rparr> \<rparr>"

definition chunk_of :: "tc_chunk list \<Rightarrow> chunk" where
  "chunk_of frags = [\<lparr> content = None, tool_calls = Some frags \<rparr>]"

definition two_part_stream :: "chunk list" where
  \<open>two_part_stream =
     [chunk_of [frag 0 (Some ''call_0'') (Some ''read_file'') ''{"a":1''],
      chunk_of [frag 0 None None ''}'']]\<close>

definition interleaved_stream :: "chunk list" where
  \<open>interleaved_stream =
     [chunk_of [frag 0 (Some ''call_0'') (Some ''read_file'') ''{"path":'',
                frag 1 (Some ''call_1'') (Some ''read_file'') ''{"pa''],
      chunk_of [frag 1 None None ''th":"out.txt"}'']]\<close>








section \<open>Properties\<close>

text \<open>
  Claim C7. When the reply to the first model call carries text and no function call,
  \<open>execute\<close> returns that text unchanged after exactly one model call: the world (files,
  prompts, commands, tool runs) is untouched, and the text is the last turn of the
  history.
\<close>

theorem text_reply_returns:
  assumes "0 < max_turns"
    and "llm_generate ag (history s @ [UserParts prompt]) = Inr r"
    and "function_call r = None"
    and "text_part r = Some t"
  shows "execute ag prompt max_turns s =
           (Inr t, s\<lparr> history := history s @ [UserParts prompt, ModelText t],
                      llm_calls := Suc (llm_calls s) \<rparr>)"
proof -
  from assms(1) obtain n where n: "nat max_turns = Suc n"
    by (cases "nat max_turns") auto
  show ?thesis
    using assms(2-4) by (simp add: execute_def n execute_turn_def)
qed

theorem text_reply_returns_witness:
  "execute (sample_agent (\<lambda>h. Inr (text_reply ''done'')) False os_no) ''summarize this repo'' 25 state0 =
     (Inr (Some ''done''),
      state0\<lparr> history := [UserParts ''summarize this repo'', ModelText (Some ''done'')],
              llm_calls := 1 \<rparr>)"
  using text_reply_returns [of 25 "sample_agent (\<lambda>h. Inr (text_reply ''done'')) False os_no"
      state0 "''summarize this repo''" "text_reply ''done''" "Some ''done''"]
  by (simp add: sample_agent_def text_reply_def state0_def)

lemma is_error_rejected: "is_error (rejected n)"
  by (simp add: is_error_def rejected_def err_def)

text \<open>
  Claim C2. When the model asks for a dangerous tool, the agent is not in yolo mode and
  the user answers the agent's approval prompt with anything but \<open>y\<close>, the iteration
  does not reach the registry: files, commands and the log of tool runs are as before,
  the result appended to the history after the model's turn is the rejection error, and
  the loop goes on to its next iteration. \<open>_execute_tool\<close> of the streaming mode returns
  the same error without running the tool.
\<close>

theorem rejected_call_is_not_run:
  assumes "llm_generate ag (history s) = Inr r"
    and "function_call r = Some fc"
    and "fc_name fc \<in> set DANGEROUS_TOOLS"
    and "\<not> yolo ag"
    and "user (os ag) (prompts (world s) @ [''Approve this tool call?'']) \<noteq> ''y''"
    and "s' = s\<lparr> llm_calls := Suc (llm_calls s),
                  history := history s @ [ModelParts r, FunctionParts (fc_name fc) (rejected (fc_name fc))],
                  world := (world s)\<lparr> prompts := prompts (world s) @ [''Approve this tool call?''] \<rparr> \<rparr>"
  shows "execute_turn ag s = (Next, s')
       \<and> files (world s') = files (world s)
       \<and> runs (world s') = runs (world s)
       \<and> commands (world s') = commands (world s)
       \<and> is_error (rejected (fc_name fc))
       \<and> execute_loop ag (Suc n) s = execute_loop ag n s'
       \<and> execute_tool ag (Some (fc_name fc)) a (world s) =
            (rejected (fc_name fc), (world s)\<lparr> prompts := prompts (world s) @ [''Approve this tool call?''] \<rparr>)"
proof -
  have t: "execute_turn ag s = (Next, s')"
    using assms by (simp add: execute_turn_def handle_function_call_def Prompt_ask_def Let_def)
  have e: "execute_tool ag (Some (fc_name fc)) a (world s) =
            (rejected (fc_name fc), (world s)\<lparr> prompts := prompts (world s) @ [''Approve this tool call?''] \<rparr>)"
    using assms(3-5) by (simp add: execute_tool_def Prompt_ask_def Let_def str_opt_def)
  show ?thesis
    using t e assms(6) by (simp add: is_error_rejected)
qed

theorem rejected_call_is_not_run_witness:
  "execute_turn (sample_agent (\<lambda>h. Inr (call_reply ''edit'' edit_args)) False os_no) state0 =
     (Next, state0\<lparr> llm_calls := 1,
                     history := [ModelParts (call_reply ''edit'' edit_args),
                                 FunctionParts ''edit'' (rejected ''edit'')],
                     world := world0\<lparr> prompts := [''Approve this tool call?''] \<rparr> \<rparr>)"
  using rejected_call_is_not_run [of "sample_agent (\<lambda>h. Inr (call_reply ''edit'' edit_args)) False os_no"
      state0 "call_reply ''edit'' edit_args" "\<lparr> fc_name = ''edit'', fc_args = Some (JObj edit_args) \<rparr>"
      "state0\<lparr> llm_calls := 1,
                     history := [ModelParts (call_reply ''edit'' edit_args),
                                 FunctionParts ''edit'' (rejected ''edit'')],
                     world := world0\<lparr> prompts := [''Approve this tool call?''] \<rparr> \<rparr>"]
  by (simp add: sample_agent_def call_reply_def state0_def world0_def os_no_def DANGEROUS_TOOLS_def)

text \<open>
  Claim C1, evaluated where it fails. The agent runs in yolo mode and the model asks for
  \<open>shell\<close> with \<open>{"command": "ls"}\<close>. The loop asks nothing itself, but the registry calls
  \<open>ShellTool.run\<close> without a \<open>yolo\<close> argument, so the tool asks \<open>Approve this command?\<close>;
  the user answers \<open>n\<close> and the command is never run.
\<close>

theorem yolo_shell_call_prompts:
  "execute (sample_agent (\<lambda>h. Inr (call_reply ''shell'' [(''command'', JStr ''ls'')])) True os_no)
       ''go'' 1 state0 =
     (Inr (Some turn_limit_error),
      state0\<lparr> llm_calls := 1,
              history := [UserParts ''go'',
                          ModelParts (call_reply ''shell'' [(''command'', JStr ''ls'')]),
                          FunctionParts ''shell'' (err ''User rejected the shell command.'')],
              world := world0\<lparr> prompts := [''Approve this command?''],
                               runs := [(''shell'', [(''command'', JStr ''ls'')])] \<rparr> \<rparr>)"
  by (simp add: execute_def execute_turn_def handle_function_call_def run_and_record_def
      ToolRegistry_run_def ToolRegistry_get_def tools_registry_def ShellTool_run_def kwarg_def
      Prompt_ask_def sample_agent_def call_reply_def state0_def world0_def os_no_def
      DANGEROUS_TOOLS_def Let_def)

text \<open>
  Claim C5, evaluated where it fails. The model asks for a tool that is not registered.
  In blocking mode the \<open>KeyError\<close> of the registry's lookup leaves \<open>execute\<close>: no tool
  result is appended after the model's turn and there is no second model call.
  \<open>_execute_tool\<close> of the streaming mode turns the same exception into an error result.
\<close>

theorem unknown_tool_escapes_execute:
  "execute_default (sample_agent (\<lambda>h. Inr (call_reply ''nope'' [])) False os_no) ''go'' state0 =
     (Inl (KeyError ''nope''),
      state0\<lparr> llm_calls := 1,
              history := [UserParts ''go'', ModelParts (call_reply ''nope'' [])] \<rparr>)
   \<and> execute_tool (sample_agent (\<lambda>h. Inr (call_reply ''nope'' [])) False os_no) (Some ''nope'')
        (JObj []) world0 =
     (err (''Error executing tool nope: '' @ str_exn (KeyError ''nope'')), world0)"
  by (simp add: execute_default_def execute_def execute_turn_def handle_function_call_def
      run_and_record_def execute_tool_def run_caught_def
      ToolRegistry_run_def ToolRegistry_get_def tools_registry_def
      sample_agent_def call_reply_def state0_def world0_def os_no_def
      DANGEROUS_TOOLS_def Let_def eval_nat_numeral)

text \<open>
  Claim C3, evaluated where it fails. The backend always asks for a tool that is not
  registered and \<open>max_turns\<close> is 2: \<open>execute\<close> is left by a \<open>KeyError\<close> after one model
  call, not by the turn-limit error after two.
\<close>

theorem turn_limit_not_reached:
  "fst (execute (sample_agent (\<lambda>h. Inr (call_reply ''nope'' [])) True os_no) ''go'' 2 state0)
     = Inl (KeyError ''nope'')
   \<and> llm_calls (snd (execute (sample_agent (\<lambda>h. Inr (call_reply ''nope'' [])) True os_no) ''go'' 2 state0))
     = 1"
  by (simp add: execute_def execute_turn_def handle_function_call_def
      run_and_record_def ToolRegistry_run_def ToolRegistry_get_def tools_registry_def
      sample_agent_def call_reply_def state0_def world0_def os_no_def
      DANGEROUS_TOOLS_def Let_def eval_nat_numeral)

text \<open>
  Where every iteration ends with a tool result, the bound is what the loop enforces:
  exactly \<open>n\<close> model calls, then the turn-limit error, which is never the text returned
  for a malformed reply.
\<close>

lemma turn_limit_error_distinct: "turn_limit_error \<noteq> invalid_response ag r"
  by (simp add: turn_limit_error_def invalid_response_def)

lemma execute_loop_turn_limit:
  assumes "\<And>s. \<exists>s'. execute_turn ag s = (Next, s') \<and> llm_calls s' = Suc (llm_calls s)"
  shows "\<exists>s'. execute_loop ag n s = (Inr (Some turn_limit_error), s') \<and> llm_calls s' = llm_calls s + n"
proof (induction n arbitrary: s)
  case 0
  show ?case by simp
next
  case (Suc n)
  from assms obtain s1 where s1: "execute_turn ag s = (Next, s1)" "llm_calls s1 = Suc (llm_calls s)"
    by blast
  from Suc.IH [of s1] obtain s2 where
    "execute_loop ag n s1 = (Inr (Some turn_limit_error), s2)" "llm_calls s2 = llm_calls s1 + n"
    by blast
  with s1 show ?case by simp
qed

subsection \<open>The edit tool\<close>


lemma read_bytes_file:
  "resolve (files w) (getcwd env) p = Inr loc \<Longrightarrow> files w loc = Some (File b) \<Longrightarrow>
     read_bytes env w p = (if loc = [] then Inl (OSError ''Is a directory'') else Inr b)"
  by (simp add: read_bytes_def is_dir_abs_def)



lemma contains_iff: "contains old s \<longleftrightarrow> (\<exists>pre post. s = pre @ old @ post)"
proof (induction s)
  case Nil
  show ?case by auto
next
  case (Cons c cs)
  show ?case
  proof
    assume "contains old (c # cs)"
    then consider "prefix old (c # cs)" | "contains old cs" by auto
    then show "\<exists>pre post. c # cs = pre @ old @ post"
    proof cases
      case 1
      then obtain post where "c # cs = old @ post" by (auto simp: prefix_def)
      then have "c # cs = [] @ old @ post" by simp
      then show ?thesis by blast
    next
      case 2
      with Cons.IH obtain pre post where "cs = pre @ old @ post" by blast
      then have "c # cs = (c # pre) @ old @ post" by simp
      then show ?thesis by blast
    qed
  next
    assume "\<exists>pre post. c # cs = pre @ old @ post"
    then obtain pre post where d: "c # cs = pre @ old @ post" by blast
    show "contains old (c # cs)"
    proof (cases pre)
      case Nil
      with d have "prefix old (c # cs)" by (simp add: prefix_def)
      then show ?thesis by simp
    next
      case (Cons a pre')
      with d have "cs = pre' @ old @ post" by simp
      with Cons.IH have "contains old cs" by blast
      then show ?thesis by simp
    qed
  qed
qed

















subsection \<open>Where the file tools look\<close>











lemma mkdir_parents_rest:
  "mkdir_parents env p w = Inr w' \<Longrightarrow> w' = w\<lparr> files := files w' \<rparr>"
  by (auto simp: mkdir_parents_def split: sum.splits)
















lemma Path_out: "Path ''out.txt'' = \<lparr> absolute = False, parts = [''out.txt''] \<rparr>"
  by (simp add: Path_def)



subsection \<open>Streamed tool calls\<close>

lemma add_fragment_args:
  assumes "add_fragment c tcs = Inr tcs'"
  shows "args_from tcs' i = args_from tcs i @ (if tc_index c = i then fragment_text c else [])"
proof (cases "tc_function c")
  case None
  with assms show ?thesis
    by (auto simp: add_fragment_def fragment_text_def args_from_def split: if_splits)
next
  case (Some f)
  define tcs1 where "tcs1 = (if length tcs \<le> tc_index c
       then tcs @ [\<lparr> call_id = tc_id c, call_name = fn_name f, call_arguments = [] \<rparr>] else tcs)"
  have a1: "args_from tcs1 j = args_from tcs j" for j
    by (auto simp: tcs1_def args_from_def nth_append)
  show ?thesis
  proof (cases "fragment_text c = []")
    case True
    with Some assms have "tcs' = tcs1"
      by (auto simp: add_fragment_def fragment_text_def tcs1_def split: option.splits if_splits)
    with a1 True show ?thesis by simp
  next
    case False
    with Some assms have i: "tc_index c < length tcs1"
      and t: "tcs' = tcs1[tc_index c := (tcs1 ! tc_index c)\<lparr> call_arguments :=
                                call_arguments (tcs1 ! tc_index c) @ fragment_text c \<rparr>]"
      by (auto simp: add_fragment_def fragment_text_def tcs1_def split: option.splits if_splits)
    have "args_from tcs' i = args_from tcs1 i @ (if tc_index c = i then fragment_text c else [])"
      using t i by (auto simp: args_from_def)
    with a1 show ?thesis by simp
  qed
qed

lemma add_fragments_args:
  "add_fragments frags tcs = Inr tcs' \<Longrightarrow> args_from tcs' i = args_from tcs i @ arrived_in i frags"
proof (induction frags arbitrary: tcs)
  case Nil
  then show ?case by (simp add: arrived_in_def)
next
  case (Cons c frags)
  from Cons.prems obtain tcs1 where s1: "add_fragment c tcs = Inr tcs1"
    and s2: "add_fragments frags tcs1 = Inr tcs'"
    by (auto split: sum.splits)
  from add_fragment_args [OF s1, of i] Cons.IH [OF s2] show ?case
    by (simp add: arrived_in_def)
qed

lemma arrived_arguments_Cons:
  "arrived_arguments i (ch # chs) = chunk_arguments i ch @ arrived_arguments i chs"
  by (simp add: arrived_arguments_def chunk_arguments_def)

lemma process_chunk_args:
  assumes "process_chunk ch a = (None, a')"
  shows "args_from (acc_tool_calls a') i = args_from (acc_tool_calls a) i @ chunk_arguments i ch"
proof (cases ch)
  case Nil
  with assms show ?thesis by (simp add: process_chunk_def)
next
  case (Cons d ds)
  define a1 where "a1 = (case content d of
                       None \<Rightarrow> a
                     | Some t \<Rightarrow>
                         if t = [] then a
                         else a\<lparr> emitted := emitted a @ [YStr t],
                                full_response_content := full_response_content a @ t \<rparr>)"
  have k: "acc_tool_calls a1 = acc_tool_calls a"
    by (simp add: a1_def split: option.splits)
  show ?thesis
  proof (cases "tool_calls d")
    case None
    with Cons assms have "a' = a1" by (simp add: process_chunk_def a1_def Let_def)
    with k None Cons show ?thesis by (simp add: chunk_arguments_def)
  next
    case (Some frags)
    with Cons assms obtain tcs where t: "add_fragments frags (acc_tool_calls a1) = Inr tcs"
      and a': "a' = a1\<lparr> acc_tool_calls := tcs \<rparr>"
      by (auto simp: process_chunk_def a1_def [symmetric] Let_def split: sum.splits)
    from add_fragments_args [OF t, of i] k a' Some Cons show ?thesis
      by (simp add: chunk_arguments_def)
  qed
qed

lemma process_stream_args:
  "process_stream chunks a = (None, a') \<Longrightarrow>
     args_from (acc_tool_calls a') i = args_from (acc_tool_calls a) i @ arrived_arguments i chunks"
proof (induction chunks arbitrary: a)
  case Nil
  then show ?case by (simp add: arrived_arguments_def)
next
  case (Cons ch chunks)
  from Cons.prems obtain a1 where s1: "process_chunk ch a = (None, a1)"
    and s2: "process_stream chunks a1 = (None, a')"
    by (auto split: prod.splits option.splits)
  from process_chunk_args [OF s1, of i] Cons.IH [OF s2] show ?case
    by (simp add: arrived_arguments_Cons)
qed

lemma merged_arguments:
  assumes "process_stream chunks empty_accumulator = (None, a)"
    and "i < length (acc_tool_calls a)"
  shows "call_arguments (acc_tool_calls a ! i) = arrived_arguments i chunks"
  using process_stream_args [OF assms(1), of i] assms(2)
  by (simp add: args_from_def empty_accumulator_def)

lemma dispatch_append:
  "dispatch ag (xs @ ys) w =
     (case dispatch ag xs w of (o1, y1, w1) \<Rightarrow>
        (case dispatch ag ys w1 of (o2, y2, w2) \<Rightarrow> (o1 @ o2, y1 @ y2, w2)))"
proof (induction xs arbitrary: w)
  case Nil
  show ?case by (simp split: prod.splits)
next
  case (Cons tc xs)
  show ?case
    by (cases "json_loads ag (call_arguments tc)")
       (simp_all add: Cons.IH Let_def split: prod.splits)
qed

lemma dispatch_invalid:
  assumes "json_loads ag (call_arguments bad) = None"
    and "dispatch ag xs w = (o1, y1, w1)"
    and "dispatch ag ys w1 = (o2, y2, w2)"
  shows "dispatch ag (xs @ bad # ys) w =
           (o1 @ ToolMessage (call_id bad) (call_name bad) (invalid_json bad) # o2,
            y1 @ YStr (invalid_json bad) # y2, w2)"
    and "dispatch ag (xs @ ys) w = (o1 @ o2, y1 @ y2, w2)"
  using assms by (simp_all add: dispatch_append)

lemma dispatch_valid:
  assumes "json_loads ag (call_arguments tc) = Some v"
  shows "dispatch ag [tc] w =
           ([ToolMessage (call_id tc) (call_name tc) (json_dumps ag (fst (execute_tool ag (call_name tc) v w)))],
            [YCall (call_name tc) v], snd (execute_tool ag (call_name tc) v w))"
  using assms by (simp add: Let_def split: prod.splits)

lemma stream_turn_calls:
  assumes "llm_generate_stream ag (history s) = Inr chunks"
    and "process_stream chunks empty_accumulator = (None, a)"
    and "acc_tool_calls a \<noteq> []"
    and "dispatch ag (acc_tool_calls a) (world s) = (outs, ys, w)"
  shows "stream_turn ag s =
           (Next, s\<lparr> llm_calls := Suc (llm_calls s),
                      history := history s
                                @ [AssistantCalls (full_response_content a) (acc_tool_calls a)] @ outs,
                      yields := yields s @ emitted a @ ys,
                      world := w \<rparr>)"
  using assms by (simp add: stream_turn_def empty_accumulator_def Let_def)

text \<open>
  Claim C4. While a stream is read, the argument text held for a call index is the
  text of the fragments that arrived for that index, joined in arrival order. The text is
  handed to \<open>json.loads\<close> only when the stream has ended: the iteration dispatches the
  assembled calls after \<open>process_stream\<close> has returned. A call whose merged text does not
  parse adds its own error message as its tool result (and yields it) and nothing else:
  the calls before and after it give the same results, and leave the same world, as if it
  were not there. A call whose text parses is announced and run through
  \<open>_execute_tool\<close>, and its result is stored as \<open>json.dumps\<close> gives it.
\<close>

theorem streamed_arguments_merged_and_isolated:
  "(\<forall>chunks a i. process_stream chunks empty_accumulator = (None, a) \<and> i < length (acc_tool_calls a)
       \<longrightarrow> call_arguments (acc_tool_calls a ! i) = arrived_arguments i chunks)
 \<and> (\<forall>s chunks a outs ys w.
       llm_generate_stream ag (history s) = Inr chunks
       \<and> process_stream chunks empty_accumulator = (None, a)
       \<and> acc_tool_calls a \<noteq> []
       \<and> dispatch ag (acc_tool_calls a) (world s) = (outs, ys, w)
       \<longrightarrow> stream_turn ag s =
             (Next, s\<lparr> llm_calls := Suc (llm_calls s),
                        history := history s
                           @ [AssistantCalls (full_response_content a) (acc_tool_calls a)] @ outs,
                        yields := yields s @ emitted a @ ys,
                        world := w \<rparr>))
 \<and> (\<forall>bad xs ys w o1 y1 w1 o2 y2 w2.
       json_loads ag (call_arguments bad) = None
       \<and> dispatch ag xs w = (o1, y1, w1)
       \<and> dispatch ag ys w1 = (o2, y2, w2)
       \<longrightarrow> dispatch ag (xs @ bad # ys) w =
             (o1 @ ToolMessage (call_id bad) (call_name bad) (invalid_json bad) # o2,
              y1 @ YStr (invalid_json bad) # y2, w2)
           \<and> dispatch ag (xs @ ys) w = (o1 @ o2, y1 @ y2, w2))
 \<and> (\<forall>tc v w. json_loads ag (call_arguments tc) = Some v
       \<longrightarrow> dispatch ag [tc] w =
             ([ToolMessage (call_id tc) (call_name tc)
                 (json_dumps ag (fst (execute_tool ag (call_name tc) v w)))],
              [YCall (call_name tc) v], snd (execute_tool ag (call_name tc) v w)))"
proof (intro conjI allI impI)
  fix chunks and a :: accumulator and i
  assume "process_stream chunks empty_accumulator = (None, a) \<and> i < length (acc_tool_calls a)"
  then show "call_arguments (acc_tool_calls a ! i) = arrived_arguments i chunks"
    by (simp add: merged_arguments)
next
  fix s :: state and chunks and a :: accumulator and outs ys and w :: world
  assume "llm_generate_stream ag (history s) = Inr chunks
       \<and> process_stream chunks empty_accumulator = (None, a)
       \<and> acc_tool_calls a \<noteq> []
       \<and> dispatch ag (acc_tool_calls a) (world s) = (outs, ys, w)"
  then show "stream_turn ag s =
             (Next, s\<lparr> llm_calls := Suc (llm_calls s),
                        history := history s
                           @ [AssistantCalls (full_response_content a) (acc_tool_calls a)] @ outs,
                        yields := yields s @ emitted a @ ys,
                        world := w \<rparr>)"
    using stream_turn_calls [of ag s chunks a outs ys w] by simp
next
  fix bad :: tool_call and xs ys and w :: world and o1 y1 and w1 :: world and o2 y2 and w2 :: world
  assume h: "json_loads ag (call_arguments bad) = None
       \<and> dispatch ag xs w = (o1, y1, w1)
       \<and> dispatch ag ys w1 = (o2, y2, w2)"
  from h show "dispatch ag (xs @ bad # ys) w =
             (o1 @ ToolMessage (call_id bad) (call_name bad) (invalid_json bad) # o2,
              y1 @ YStr (invalid_json bad) # y2, w2)"
    using dispatch_invalid(1) [of ag bad xs w o1 y1 w1 ys o2 y2 w2] by simp
  from h show "dispatch ag (xs @ ys) w = (o1 @ o2, y1 @ y2, w2)"
    using dispatch_invalid(2) [of ag bad xs w o1 y1 w1 ys o2 y2 w2] by simp
next
  fix tc :: tool_call and v and w :: world
  assume "json_loads ag (call_arguments tc) = Some v"
  then show "dispatch ag [tc] w =
             ([ToolMessage (call_id tc) (call_name tc)
                 (json_dumps ag (fst (execute_tool ag (call_name tc) v w)))],
              [YCall (call_name tc) v], snd (execute_tool ag (call_name tc) v w))"
    by (rule dispatch_valid)
qed

lemma two_part_merge:
  \<open>process_stream two_part_stream empty_accumulator =
     (None, \<lparr> full_response_content = [],
              acc_tool_calls = [\<lparr> call_id = Some ''call_0'', call_name = Some ''read_file'',
                                  call_arguments = ''{"a":1}'' \<rparr>],
              emitted = [] \<rparr>)\<close>
  by (simp add: two_part_stream_def chunk_of_def frag_def empty_accumulator_def
      process_chunk_def add_fragment_def Let_def)

lemma interleaved_merge:
  \<open>process_stream interleaved_stream empty_accumulator =
     (None, \<lparr> full_response_content = [],
              acc_tool_calls = [\<lparr> call_id = Some ''call_0'', call_name = Some ''read_file'',
                                  call_arguments = ''{"path":'' \<rparr>,
                                \<lparr> call_id = Some ''call_1'', call_name = Some ''read_file'',
                                  call_arguments = ''{"path":"out.txt"}'' \<rparr>],
              emitted = [] \<rparr>)\<close>
  by (simp add: interleaved_stream_def chunk_of_def frag_def empty_accumulator_def
      process_chunk_def add_fragment_def Let_def)

lemma read_out_missing:
  "execute_tool (stream_agent chunks) (Some ''read_file'') (JObj [(''path'', JStr ''out.txt'')]) world0 =
     (err (''File '' @ [CHR 0x27] @ ''out.txt'' @ [CHR 0x27] @ '' does not exist at ''
           @ [CHR 0x27] @ ''/home/out.txt'' @ [CHR 0x27] @ ''.''),
      world0\<lparr> runs := [(''read_file'', [(''path'', JStr ''out.txt'')])] \<rparr>)"
  by (simp add: execute_tool_def run_caught_def stream_agent_def DANGEROUS_TOOLS_def
      ToolRegistry_run_def ToolRegistry_get_def tools_registry_def ReadFileTool_run_def
      Path_out joinpath_def read_file_WORKSPACE_ROOT_def parent_def getcwd_path_def
      exists_def resolve_def os_no_def world0_def fs0_def str_path_def is_dir_abs_def Let_def)

theorem streamed_arguments_merged_and_isolated_witness:
  \<open>arrived_arguments 0 two_part_stream = ''{"a":1}''
   \<and> json_loads (stream_agent interleaved_stream) ''{"path":'' = None
   \<and> history (snd (stream_turn (stream_agent interleaved_stream) state0)) =
       [AssistantCalls []
          [\<lparr> call_id = Some ''call_0'', call_name = Some ''read_file'',
             call_arguments = ''{"path":'' \<rparr>,
           \<lparr> call_id = Some ''call_1'', call_name = Some ''read_file'',
             call_arguments = ''{"path":"out.txt"}'' \<rparr>],
        ToolMessage (Some ''call_0'') (Some ''read_file'')
          ''Error: Invalid JSON arguments for tool read_file: {"path":'',
        ToolMessage (Some ''call_1'') (Some ''read_file'')
          (sample_dumps (err (''File '' @ [CHR 0x27] @ ''out.txt'' @ [CHR 0x27] @ '' does not exist at ''
             @ [CHR 0x27] @ ''/home/out.txt'' @ [CHR 0x27] @ ''.'')))]\<close>
proof -
  let ?ag = "stream_agent interleaved_stream"
  let ?bad = \<open>\<lparr> call_id = Some ''call_0'', call_name = Some ''read_file'',
                call_arguments = ''{"path":'' \<rparr>\<close>
  let ?good = \<open>\<lparr> call_id = Some ''call_1'', call_name = Some ''read_file'',
                 call_arguments = ''{"path":"out.txt"}'' \<rparr>\<close>
  let ?v = "JObj [(''path'', JStr ''out.txt'')]"
  note t = streamed_arguments_merged_and_isolated [of ?ag]
  note t1 = t [THEN conjunct1, rule_format]
  note t2 = t [THEN conjunct2, THEN conjunct1, rule_format]
  note t3 = t [THEN conjunct2, THEN conjunct2, THEN conjunct1, rule_format]
  note t4 = t [THEN conjunct2, THEN conjunct2, THEN conjunct2, rule_format]
  have a: \<open>arrived_arguments 0 two_part_stream = ''{"a":1}''\<close>
    using t1 [of two_part_stream _ 0] two_part_merge by simp
  have b: \<open>json_loads ?ag (call_arguments ?bad) = None\<close>
    by (simp add: stream_agent_def sample_loads_def)
  have g: \<open>json_loads ?ag (call_arguments ?good) = Some ?v\<close>
    by (simp add: stream_agent_def sample_loads_def)
  note dg = t4 [of ?good ?v world0, OF g]
  have d0: "dispatch ?ag [] world0 = ([], [], world0)" by simp
  have db: "dispatch ?ag ([] @ ?bad # [?good]) world0 =
      ([] @ ToolMessage (call_id ?bad) (call_name ?bad) (invalid_json ?bad) #
         [ToolMessage (call_id ?good) (call_name ?good)
                 (json_dumps ?ag (fst (execute_tool ?ag (call_name ?good) ?v world0)))],
       [] @ YStr (invalid_json ?bad) # [YCall (call_name ?good) ?v],
       snd (execute_tool ?ag (call_name ?good) ?v world0))"
  proof -
    have "json_loads ?ag (call_arguments ?bad) = None
        \<and> dispatch ?ag [] world0 = ([], [], world0)
        \<and> dispatch ?ag [?good] world0 =
             ([ToolMessage (call_id ?good) (call_name ?good)
                 (json_dumps ?ag (fst (execute_tool ?ag (call_name ?good) ?v world0)))],
              [YCall (call_name ?good) ?v], snd (execute_tool ?ag (call_name ?good) ?v world0))"
      by (intro conjI b d0 dg)
    from t3 [OF this] show ?thesis by (rule conjunct1)
  qed
  have gen: "llm_generate_stream ?ag (history state0) = Inr interleaved_stream"
    by (simp add: stream_agent_def)
  have w0: "world state0 = world0" by (simp add: state0_def)
  have ne: \<open>acc_tool_calls \<lparr> full_response_content = [],
              acc_tool_calls = [?bad, ?good], emitted = [] \<rparr> \<noteq> []\<close> by simp
  have db': \<open>dispatch ?ag (acc_tool_calls \<lparr> full_response_content = [],
              acc_tool_calls = [?bad, ?good], emitted = [] \<rparr>) (world state0) =
      (ToolMessage (call_id ?bad) (call_name ?bad) (invalid_json ?bad) #
         [ToolMessage (call_id ?good) (call_name ?good)
                 (json_dumps ?ag (fst (execute_tool ?ag (call_name ?good) ?v world0)))],
       YStr (invalid_json ?bad) # [YCall (call_name ?good) ?v],
       snd (execute_tool ?ag (call_name ?good) ?v world0))\<close>
    using db w0 by simp
  have "history (snd (stream_turn ?ag state0)) =
          history state0 @ [AssistantCalls [] [?bad, ?good]]
             @ (ToolMessage (call_id ?bad) (call_name ?bad) (invalid_json ?bad) #
                 [ToolMessage (call_id ?good) (call_name ?good)
                   (json_dumps ?ag (fst (execute_tool ?ag (call_name ?good) ?v world0)))])"
    by (subst t2 [of state0, OF conjI [OF gen conjI [OF interleaved_merge conjI [OF ne db']]]]) simp
  then have h: \<open>history (snd (stream_turn ?ag state0)) =
       [AssistantCalls [] [?bad, ?good],
        ToolMessage (Some ''call_0'') (Some ''read_file'')
          ''Error: Invalid JSON arguments for tool read_file: {"path":'',
        ToolMessage (Some ''call_1'') (Some ''read_file'')
          (sample_dumps (err (''File '' @ [CHR 0x27] @ ''out.txt'' @ [CHR 0x27] @ '' does not exist at ''
             @ [CHR 0x27] @ ''/home/out.txt'' @ [CHR 0x27] @ ''.'')))]\<close>
    by (simp add: read_out_missing invalid_json_def str_opt_def)
       (simp add: stream_agent_def state0_def)
  from a b h show ?thesis by simp
qed

subsection \<open>The turn limit of the streaming mode\<close>

lemma dispatch_shape:
  "dispatch ag tcs w = (outs, ys, w') \<Longrightarrow>
     length outs = length tcs \<and> length ys = length tcs
   \<and> (\<forall>t \<in> set outs. \<exists>i n m. t = ToolMessage i n m)"
proof (induction tcs arbitrary: w outs ys w')
  case Nil
  then show ?case by simp
next
  case (Cons tc tcs)
  show ?case
  proof (cases "json_loads ag (call_arguments tc)")
    case None
    obtain o2 y2 w2 where d: "dispatch ag tcs w = (o2, y2, w2)" by (cases "dispatch ag tcs w")
    with None Cons.prems have "outs = ToolMessage (call_id tc) (call_name tc) (invalid_json tc) # o2"
      "ys = YStr (invalid_json tc) # y2" by simp_all
    with Cons.IH [OF d] show ?thesis by auto
  next
    case (Some v)
    obtain r w1 where e: "execute_tool ag (call_name tc) v w = (r, w1)"
      by (cases "execute_tool ag (call_name tc) v w")
    obtain o2 y2 w2 where d: "dispatch ag tcs w1 = (o2, y2, w2)" by (cases "dispatch ag tcs w1")
    with Some e Cons.prems have "outs = ToolMessage (call_id tc) (call_name tc) (json_dumps ag r) # o2"
      "ys = YCall (call_name tc) v # y2" by simp_all
    with Cons.IH [OF d] show ?thesis by auto
  qed
qed

lemma stream_turn_shape:
  assumes "always_calls ag"
  shows "\<exists>chunks a outs ys w.
                llm_generate_stream ag (history x) = Inr chunks
              \<and> process_stream chunks empty_accumulator = (None, a)
              \<and> dispatch ag (acc_tool_calls a) (world x) = (outs, ys, w)
              \<and> stream_turn ag x = (Next, stream_step ag x)
              \<and> history (stream_step ag x)
                   = history x @ AssistantCalls (full_response_content a) (acc_tool_calls a) # outs
              \<and> yields (stream_step ag x) = yields x @ emitted a @ ys
              \<and> acc_tool_calls a \<noteq> []
              \<and> length outs = length (acc_tool_calls a) \<and> length ys = length (acc_tool_calls a)
              \<and> (\<forall>t \<in> set outs. \<exists>i n m. t = ToolMessage i n m)"
proof -
  from assms obtain chunks a where g: "llm_generate_stream ag (history x) = Inr chunks"
    and p: "process_stream chunks empty_accumulator = (None, a)"
    and n: "acc_tool_calls a \<noteq> []"
    unfolding always_calls_def by blast
  obtain outs ys w where d: "dispatch ag (acc_tool_calls a) (world x) = (outs, ys, w)"
    by (cases "dispatch ag (acc_tool_calls a) (world x)")
  note t = stream_turn_calls [OF g p n d]
  have t1: "stream_turn ag x = (Next, stream_step ag x)"
    and t2: "history (stream_step ag x)
                   = history x @ AssistantCalls (full_response_content a) (acc_tool_calls a) # outs"
    and t3: "yields (stream_step ag x) = yields x @ emitted a @ ys"
    using t by (simp_all add: stream_step_def)
  from dispatch_shape [OF d] g p d n t1 t2 t3 show ?thesis by blast
qed

lemma stream_turn_next:
  assumes "always_calls ag"
  shows "stream_turn ag s = (Next, stream_step ag s)
       \<and> llm_calls (stream_step ag s) = Suc (llm_calls s)"
proof -
  from assms obtain chunks a where g: "llm_generate_stream ag (history s) = Inr chunks"
    and p: "process_stream chunks empty_accumulator = (None, a)"
    and n: "acc_tool_calls a \<noteq> []"
    unfolding always_calls_def by blast
  obtain outs ys w where d: "dispatch ag (acc_tool_calls a) (world s) = (outs, ys, w)"
    by (cases "dispatch ag (acc_tool_calls a) (world s)")
  from stream_turn_calls [OF g p n d] show ?thesis by (simp add: stream_step_def)
qed

lemma execute_stream_loop_exhausts:
  assumes "always_calls ag"
  shows "execute_stream_loop ag n s = (Inr (), (stream_step ag ^^ n) s)
       \<and> llm_calls ((stream_step ag ^^ n) s) = llm_calls s + n"
proof (induction n arbitrary: s)
  case 0
  show ?case by simp
next
  case (Suc n)
  from stream_turn_next [OF assms, of s]
  have t: "stream_turn ag s = (Next, stream_step ag s)"
    and c: "llm_calls (stream_step ag s) = Suc (llm_calls s)" by auto
  from Suc.IH [of "stream_step ag s"] t c show ?case
    by (simp add: funpow_swap1)
qed

text \<open>
  Claim C10. \<open>execute_stream\<close> runs its loop ten times by default (the blocking
  \<open>execute\<close> twenty-five times). With a backend whose every streamed reply assembles at
  least one tool call, the generator ends normally after exactly \<open>max_turns\<close> model
  calls, in the state the last iteration left: each iteration appends one assistant turn
  with its tool calls and one tool message per call, and yields the text fragments of
  its stream and one item per call; after the last iteration nothing more is yielded and
  nothing more is appended.
\<close>

theorem stream_turn_limit_is_silent:
  assumes "always_calls ag"
    and "s0 = s\<lparr> history := history s @ [UserContent prompt] \<rparr>"
  shows "execute_stream ag prompt max_turns s = (Inr (), (stream_step ag ^^ nat max_turns) s0)
       \<and> llm_calls (snd (execute_stream ag prompt max_turns s)) = llm_calls s + nat max_turns
       \<and> llm_calls (snd (execute_stream_default ag prompt s)) = llm_calls s + 10
       \<and> execute_default ag prompt s = execute ag prompt 25 s
       \<and> (\<forall>x. \<exists>chunks a outs ys w.
                llm_generate_stream ag (history x) = Inr chunks
              \<and> process_stream chunks empty_accumulator = (None, a)
              \<and> dispatch ag (acc_tool_calls a) (world x) = (outs, ys, w)
              \<and> stream_turn ag x = (Next, stream_step ag x)
              \<and> history (stream_step ag x)
                   = history x @ AssistantCalls (full_response_content a) (acc_tool_calls a) # outs
              \<and> yields (stream_step ag x) = yields x @ emitted a @ ys
              \<and> acc_tool_calls a \<noteq> []
              \<and> length outs = length (acc_tool_calls a) \<and> length ys = length (acc_tool_calls a)
              \<and> (\<forall>t \<in> set outs. \<exists>i n m. t = ToolMessage i n m))"
proof -
  note l = execute_stream_loop_exhausts [OF assms(1)]
  have a: "execute_stream ag prompt max_turns s = (Inr (), (stream_step ag ^^ nat max_turns) s0)"
    using l [of "nat max_turns" s0] assms(2) by (simp add: execute_stream_def)
  have b: "llm_calls (snd (execute_stream ag prompt max_turns s)) = llm_calls s + nat max_turns"
    using l [of "nat max_turns" s0] a assms(2) by simp
  have c: "llm_calls (snd (execute_stream_default ag prompt s)) = llm_calls s + 10"
    using l [of 10 s0] assms(2) by (simp add: execute_stream_default_def execute_stream_def)
  have d: "execute_default ag prompt s = execute ag prompt 25 s"
    by (simp add: execute_default_def)
  have e: "\<exists>chunks a outs ys w.
                llm_generate_stream ag (history x) = Inr chunks
              \<and> process_stream chunks empty_accumulator = (None, a)
              \<and> dispatch ag (acc_tool_calls a) (world x) = (outs, ys, w)
              \<and> stream_turn ag x = (Next, stream_step ag x)
              \<and> history (stream_step ag x)
                   = history x @ AssistantCalls (full_response_content a) (acc_tool_calls a) # outs
              \<and> yields (stream_step ag x) = yields x @ emitted a @ ys
              \<and> acc_tool_calls a \<noteq> []
              \<and> length outs = length (acc_tool_calls a) \<and> length ys = length (acc_tool_calls a)
              \<and> (\<forall>t \<in> set outs. \<exists>i n m. t = ToolMessage i n m)" for x
    by (rule stream_turn_shape [OF assms(1)])
  from a b c d e show ?thesis by blast
qed

lemma two_part_always_calls: "always_calls (stream_agent two_part_stream)"
  using two_part_merge by (auto simp: always_calls_def stream_agent_def)

theorem stream_turn_limit_is_silent_witness:
  "always_calls (stream_agent two_part_stream)
   \<and> fst (execute_stream (stream_agent two_part_stream) ''go'' 2 state0) = Inr ()
   \<and> llm_calls (snd (execute_stream (stream_agent two_part_stream) ''go'' 2 state0)) = 2
   \<and> llm_calls (snd (execute_stream_default (stream_agent two_part_stream) ''go'' state0)) = 10"
proof -
  note t = stream_turn_limit_is_silent [where s = state0 and prompt = "''go''" and max_turns = 2,
      OF two_part_always_calls refl]
  from t [THEN conjunct1]
  have a: "fst (execute_stream (stream_agent two_part_stream) ''go'' 2 state0) = Inr ()" by simp
  from t [THEN conjunct2, THEN conjunct1]
  have b: "llm_calls (snd (execute_stream (stream_agent two_part_stream) ''go'' 2 state0)) = 2"
    by (simp add: state0_def)
  from t [THEN conjunct2, THEN conjunct2, THEN conjunct1]
  have c: "llm_calls (snd (execute_stream_default (stream_agent two_part_stream) ''go'' state0)) = 10"
    by (simp add: state0_def)
  from two_part_always_calls a b c show ?thesis by simp
qed

subsection \<open>The Groq endpoint in blocking mode\<close>

text \<open>
  \<open>_prepare_messages\<close> reads \<open>turn["content"]\<close> of a user turn, and the blocking loop
  stores the prompt under \<open>parts\<close>: on a history holding such a turn \<open>generate\<close> of the
  Groq endpoint raises before it contacts the service, and so does \<open>execute\<close>. On a
  history it accepts, \<open>generate\<close> answers with the first tool call of the service's reply
  and drops the others.
\<close>

lemma prepare_turns_error: "prepare_turns h = Inl e \<Longrightarrow> e = KeyError ''content''"
  by (induction h) (auto split: turn.splits sum.splits)

lemma prepare_turns_UserParts: "UserParts p \<in> set h \<Longrightarrow> prepare_turns h = Inl (KeyError ''content'')"
proof (induction h)
  case Nil
  then show ?case by simp
next
  case (Cons t h)
  show ?case
  proof (cases "t = UserParts p")
    case True
    then show ?thesis by simp
  next
    case False
    with Cons have r: "prepare_turns h = Inl (KeyError ''content'')" by simp
    then show ?thesis by (cases t) simp_all
  qed
qed

lemma groq_generate_blocking_history:
  "UserParts p \<in> set h \<Longrightarrow> groq_generate api loads sp h = Inl (KeyError ''content'')"
  by (simp add: groq_generate_def prepare_messages_def prepare_turns_UserParts)

lemma execute_with_groq:
  assumes "llm_generate ag = groq_generate api loads sp"
  shows "fst (execute ag prompt max_turns s) =
           (if 0 < max_turns then Inl (KeyError ''content'') else Inr (Some turn_limit_error))"
proof (cases "nat max_turns")
  case 0
  then show ?thesis by (simp add: execute_def)
next
  case (Suc n)
  have "groq_generate api loads sp (history s @ [UserParts prompt]) = Inl (KeyError ''content'')"
    by (rule groq_generate_blocking_history [of prompt]) simp
  with Suc assms show ?thesis
    by (auto simp: execute_def execute_turn_def)
qed

lemma groq_generate_first:
  assumes "prepare_messages h sp = Inr msgs" and "api msgs = Inr m"
    and "message_tool_calls m = Some (tc # rest)"
  shows "groq_generate api loads sp h =
           (case loads (function_arguments tc) of
              None \<Rightarrow> Inr (error_reply (JSONDecodeError ''Expecting value''))
            | Some a \<Rightarrow> Inr \<lparr> function_call = Some \<lparr> fc_name = function_name tc, fc_args = Some a \<rparr>,
                              text_part = None, other_keys = [] \<rparr>)"
  using assms by (simp add: groq_generate_def split: option.splits)


end
